theory Spec2Isabelle
  imports
    Main
    "HOL-Library.Word"
    "HOL-Library.Sublist"
    "HOL-Library.Multiset"
    "HOL-Library.Char_ord"
    "HOL-Library.List_Lexorder"
begin

unbundle bit_operations_syntax

section \<open>The file browser: data\<close>

text \<open>
  A Go \<^verbatim>\<open>string\<close> is a sequence of bytes; \<^typ>\<open>string\<close> is a list of 8-bit
  characters, ordered bytewise and lexicographically as Go's \<^verbatim>\<open><\<close> on strings is.
\<close>

text \<open>The fields of \<^verbatim>\<open>storage.Object\<close> the program and its templates read.\<close>

record Object =
  Name :: string
  Updated :: string
  Size :: "64 word"

text \<open>\<^verbatim>\<open>storage.Objects\<close>, the result of a list call.\<close>

record Objects =
  Items :: "Object list"
  Kind :: string
  NextPageToken :: string
  Prefixes :: "string list"

text \<open>A Go \<^verbatim>\<open>error\<close> value, by its message.\<close>

type_synonym error = string

text \<open>
  \<^verbatim>\<open>time.Time\<close> as nanoseconds since the epoch, and \<^verbatim>\<open>time.Duration\<close>, a signed
  64-bit count of nanoseconds.
\<close>

type_synonym Time = int
type_synonym Duration = "64 word"

definition Second :: Duration where
  "Second = 1000000000"

definition Add :: "Time \<Rightarrow> Duration \<Rightarrow> Time" where
  "Add t d = t + sint d"

text \<open>\<^verbatim>\<open>cloud.SignedURLOptions\<close>; \<^verbatim>\<open>main\<close> sets the first three fields.\<close>

record SignedURLOptions =
  GoogleAccessID :: string
  PrivateKey :: string
  Method :: string
  Expires :: Time
  ContentType :: string
  Headers :: "string list"
  MD5 :: string

text \<open>
  The \<^verbatim>\<open>Server\<close>: its storage client and its templates are handles of other
  packages; the state the program itself owns is the signing configuration.
\<close>

record Server =
  StorageAccessOptions :: SignedURLOptions

text \<open>A line written by \<^verbatim>\<open>log.WithFields(...).Warn(...)\<close>.\<close>

record logEntry =
  message :: string
  objectNameField :: "string option"
  internalErrorField :: "error option"

definition bucketName :: string where
  "bucketName = ''bucket.gmbuell.com''"

section \<open>Library functions the program calls\<close>

subsection \<open>Package strings\<close>

definition HasSuffix :: "string \<Rightarrow> string \<Rightarrow> bool" where
  "HasSuffix s suf \<longleftrightarrow>
     length s \<ge> length suf \<and> drop (length s - length suf) s = suf"

definition TrimSuffix :: "string \<Rightarrow> string \<Rightarrow> string" where
  "TrimSuffix s suf =
     (if HasSuffix s suf then take (length s - length suf) s else s)"

text \<open>
  \<^verbatim>\<open>strings.Replace(s, old, new, -1)\<close> for a one-byte \<^verbatim>\<open>old\<close>, which is how the
  program calls it: every occurrence of the byte, left to right, becomes \<^verbatim>\<open>new\<close>.
\<close>

fun Replace :: "string \<Rightarrow> char \<Rightarrow> string \<Rightarrow> string" where
  "Replace [] old new = []"
| "Replace (c # s) old new =
     (if c = old then new @ Replace s old new else c # Replace s old new)"

subsection \<open>Package net/url\<close>

text \<open>
  \<^verbatim>\<open>shouldEscape(c, encodeQueryComponent)\<close>: letters, digits and the four marks are
  kept, the reserved characters and everything else are escaped.
\<close>

definition shouldEscape :: "char \<Rightarrow> bool" where
  "shouldEscape c \<longleftrightarrow>
     (if (CHR ''A'' \<le> c \<and> c \<le> CHR ''Z'') \<or> (CHR ''a'' \<le> c \<and> c \<le> CHR ''z'')
          \<or> (CHR ''0'' \<le> c \<and> c \<le> CHR ''9'')
      then False
      else if c \<in> {CHR ''-'', CHR ''_'', CHR ''.'', CHR ''~''} then False
      else True)"

text \<open>The digit \<^verbatim>\<open>"0123456789ABCDEF"[i]\<close>.\<close>

definition hexDigit :: "8 word \<Rightarrow> char" where
  "hexDigit i = ''0123456789ABCDEF'' ! unat i"

text \<open>
  The second loop of \<^verbatim>\<open>escape(s, encodeQueryComponent)\<close>, which builds the result:
  a space becomes \<^verbatim>\<open>+\<close>, a byte to escape becomes \<^verbatim>\<open>%\<close> and its two hex digits
  (\<^verbatim>\<open>c>>4\<close> and \<^verbatim>\<open>c&15\<close>).
\<close>

fun escapeLoop :: "string \<Rightarrow> string" where
  "escapeLoop [] = []"
| "escapeLoop (c # s) =
     (if c = CHR '' '' then CHR ''+'' # escapeLoop s
      else if shouldEscape c then
        CHR ''%'' # hexDigit (drop_bit 4 (of_char c)) # hexDigit (of_char c AND 15)
          # escapeLoop s
      else c # escapeLoop s)"

text \<open>The first loop of \<^verbatim>\<open>escape\<close> counts the spaces and the bytes to escape.\<close>

definition spaceCount :: "string \<Rightarrow> nat" where
  "spaceCount s = length (filter (\<lambda>c. shouldEscape c \<and> c = CHR '' '') s)"

definition hexCount :: "string \<Rightarrow> nat" where
  "hexCount s = length (filter (\<lambda>c. shouldEscape c \<and> c \<noteq> CHR '' '') s)"

definition escape :: "string \<Rightarrow> string" where
  "escape s = (if spaceCount s = 0 \<and> hexCount s = 0 then s else escapeLoop s)"

definition QueryEscape :: "string \<Rightarrow> string" where
  "QueryEscape s = escape s"

section \<open>The program\<close>

subsection \<open>SignUrl\<close>

text \<open>
  \<^verbatim>\<open>cloud.SignedURL(bucket, name, opts)\<close> signs with the private key; it is a
  parameter of the model, returning the URL or an error.
\<close>

type_synonym signer = "string \<Rightarrow> string \<Rightarrow> SignedURLOptions \<Rightarrow> error + string"

text \<open>The name \<^verbatim>\<open>SignUrl\<close> passes to the signer.\<close>

definition escapedName :: "string \<Rightarrow> string" where
  "escapedName objectName = Replace (QueryEscape objectName) (CHR ''+'') ''%20''"

text \<open>
  \<^verbatim>\<open>SignUrl\<close>, with the reading of the clock \<^verbatim>\<open>time.Now()\<close> as an argument.
  It returns the string, the server after the call and the lines logged.
\<close>

definition SignUrl ::
  "signer \<Rightarrow> Time \<Rightarrow> Server \<Rightarrow> string \<Rightarrow> string \<times> Server \<times> logEntry list" where
  "SignUrl SignedURL now s objectName =
     (let opts = (StorageAccessOptions s)\<lparr>Expires := Add now (Second * 60 * 60 * 6)\<rparr>;
          s' = s\<lparr>StorageAccessOptions := opts\<rparr>
      in case SignedURL bucketName (escapedName objectName) opts of
           Inr getURL \<Rightarrow> (getURL, s', [])
         | Inl err \<Rightarrow>
             ('''', s',
              [\<lparr>message = ''Error signing URL.'', objectNameField = Some objectName,
                internalErrorField = Some err\<rparr>]))"

subsection \<open>FilterVideos and CleanupName\<close>

text \<open>The loop of \<^verbatim>\<open>FilterVideos\<close>, appending to \<^verbatim>\<open>videoObjects\<close>.\<close>

fun FilterVideos_loop :: "Object list \<Rightarrow> Object list \<Rightarrow> Object list" where
  "FilterVideos_loop [] videoObjects = videoObjects"
| "FilterVideos_loop (object # rest) videoObjects =
     FilterVideos_loop rest
       (if HasSuffix (Name object) ''.mp4'' then videoObjects @ [object] else videoObjects)"

definition FilterVideos :: "Object list \<Rightarrow> Object list" where
  "FilterVideos objectList = FilterVideos_loop objectList []"

definition CleanupName :: "string \<Rightarrow> string" where
  "CleanupName objectName = TrimSuffix objectName ''.mp4''"

subsection \<open>ByUpdated and package sort\<close>

text \<open>
  \<^verbatim>\<open>ByUpdated\<close> is a slice of objects with the three methods of \<^verbatim>\<open>sort.Interface\<close>.
  \<^verbatim>\<open>Less\<close> compares the \<^verbatim>\<open>Updated\<close> strings with \<^verbatim>\<open>></\<close>, so the greater string sorts
  first.
\<close>

type_synonym ByUpdated = "Object list"

definition Len :: "ByUpdated \<Rightarrow> nat" where
  "Len a = length a"

definition Swap :: "ByUpdated \<Rightarrow> nat \<Rightarrow> nat \<Rightarrow> ByUpdated" where
  "Swap a i j = a[i := a ! j, j := a ! i]"

definition Less :: "ByUpdated \<Rightarrow> nat \<Rightarrow> nat \<Rightarrow> bool" where
  "Less a i j \<longleftrightarrow> Updated (a ! i) > Updated (a ! j)"

text \<open>
  \<^verbatim>\<open>sort.Sort\<close> is the library's quicksort (after Bentley and McIlroy) over the three
  methods, as in the Go releases of the time of this program (1.0 to 1.5): insertion
  sort for at most seven elements, heapsort once the recursion is \<^verbatim>\<open>maxDepth\<close> deep.
  The slice is updated in place; the model passes it through. Indices are natural
  numbers: every subtraction below is of a smaller index from a greater one.
\<close>

fun insertionSort_inner :: "ByUpdated \<Rightarrow> nat \<Rightarrow> nat \<Rightarrow> ByUpdated" where
  "insertionSort_inner data a j =
     (if j > a \<and> Less data j (j - 1)
      then insertionSort_inner (Swap data j (j - 1)) a (j - 1)
      else data)"

declare insertionSort_inner.simps [simp del]

function insertionSort_outer :: "ByUpdated \<Rightarrow> nat \<Rightarrow> nat \<Rightarrow> nat \<Rightarrow> ByUpdated" where
  "insertionSort_outer data a b i =
     (if i < b then insertionSort_outer (insertionSort_inner data a i) a b (i + 1)
      else data)"
  by pat_completeness auto
termination
  by (relation "measure (\<lambda>(data, a, b, i). b - i)") auto

declare insertionSort_outer.simps [simp del]

definition insertionSort :: "ByUpdated \<Rightarrow> nat \<Rightarrow> nat \<Rightarrow> ByUpdated" where
  "insertionSort data a b = insertionSort_outer data a b (a + 1)"

text \<open>\<^verbatim>\<open>siftDown\<close>: the loop on \<^verbatim>\<open>root\<close>, which starts at \<^verbatim>\<open>lo\<close>.\<close>

function siftDown_loop :: "ByUpdated \<Rightarrow> nat \<Rightarrow> nat \<Rightarrow> nat \<Rightarrow> ByUpdated" where
  "siftDown_loop data root hi first =
     (if 2 * root + 1 \<ge> hi then data
      else if 2 * root + 2 < hi \<and> Less data (first + (2 * root + 1)) (first + (2 * root + 1) + 1)
      then
        (if \<not> Less data (first + root) (first + (2 * root + 2)) then data
         else siftDown_loop (Swap data (first + root) (first + (2 * root + 2)))
                (2 * root + 2) hi first)
      else
        (if \<not> Less data (first + root) (first + (2 * root + 1)) then data
         else siftDown_loop (Swap data (first + root) (first + (2 * root + 1)))
                (2 * root + 1) hi first))"
  by pat_completeness auto
termination
  by (relation "measure (\<lambda>(data, root, hi, first). hi - root)") auto

declare siftDown_loop.simps [simp del]

definition siftDown :: "ByUpdated \<Rightarrow> nat \<Rightarrow> nat \<Rightarrow> nat \<Rightarrow> ByUpdated" where
  "siftDown data lo hi first = siftDown_loop data lo hi first"

text \<open>
  The two loops of \<^verbatim>\<open>heapSort\<close> count \<^verbatim>\<open>i\<close> down to 0; the last argument is \<^verbatim>\<open>i + 1\<close>.
\<close>

fun heapSort_build :: "ByUpdated \<Rightarrow> nat \<Rightarrow> nat \<Rightarrow> nat \<Rightarrow> ByUpdated" where
  "heapSort_build data hi first 0 = data"
| "heapSort_build data hi first (Suc i) =
     heapSort_build (siftDown data i hi first) hi first i"

fun heapSort_pop :: "ByUpdated \<Rightarrow> nat \<Rightarrow> nat \<Rightarrow> ByUpdated" where
  "heapSort_pop data first 0 = data"
| "heapSort_pop data first (Suc i) =
     heapSort_pop (siftDown (Swap data first (first + i)) 0 i first) first i"

definition heapSort :: "ByUpdated \<Rightarrow> nat \<Rightarrow> nat \<Rightarrow> ByUpdated" where
  "heapSort data a b =
     (let first = a; hi = b - a
      in heapSort_pop (heapSort_build data hi first ((hi - 1) div 2 + 1)) first hi)"

definition medianOfThree :: "ByUpdated \<Rightarrow> nat \<Rightarrow> nat \<Rightarrow> nat \<Rightarrow> ByUpdated" where
  "medianOfThree data a b c =
     (let m0 = b; m1 = a; m2 = c;
          data = (if Less data m1 m0 then Swap data m1 m0 else data);
          data = (if Less data m2 m1 then Swap data m2 m1 else data);
          data = (if Less data m1 m0 then Swap data m1 m0 else data)
      in data)"

function swapRange_loop :: "ByUpdated \<Rightarrow> nat \<Rightarrow> nat \<Rightarrow> nat \<Rightarrow> nat \<Rightarrow> ByUpdated" where
  "swapRange_loop data a b n i =
     (if i < n then swapRange_loop (Swap data (a + i) (b + i)) a b n (i + 1) else data)"
  by pat_completeness auto
termination
  by (relation "measure (\<lambda>(data, a, b, n, i). n - i)") auto

declare swapRange_loop.simps [simp del]

definition swapRange :: "ByUpdated \<Rightarrow> nat \<Rightarrow> nat \<Rightarrow> nat \<Rightarrow> ByUpdated" where
  "swapRange data a b n = swapRange_loop data a b n 0"

text \<open>
  The partition loop of \<^verbatim>\<open>doPivot\<close>: its first inner loop moves \<^verbatim>\<open>b\<close> up (and \<^verbatim>\<open>a\<close>
  with every element equal to the pivot), its second moves \<^verbatim>\<open>c\<close> down (and \<^verbatim>\<open>d\<close>).
\<close>

function doPivot_up ::
  "ByUpdated \<Rightarrow> nat \<Rightarrow> nat \<Rightarrow> nat \<Rightarrow> nat \<Rightarrow> ByUpdated \<times> nat \<times> nat" where
  "doPivot_up data pivot a b c =
     (if b < c then
        (if Less data b pivot then doPivot_up data pivot a (b + 1) c
         else if \<not> Less data pivot b then doPivot_up (Swap data a b) pivot (a + 1) (b + 1) c
         else (data, a, b))
      else (data, a, b))"
  by pat_completeness auto
termination
  by (relation "measure (\<lambda>(data, pivot, a, b, c). c - b)") auto

declare doPivot_up.simps [simp del]

function doPivot_down ::
  "ByUpdated \<Rightarrow> nat \<Rightarrow> nat \<Rightarrow> nat \<Rightarrow> nat \<Rightarrow> ByUpdated \<times> nat \<times> nat" where
  "doPivot_down data pivot b c d =
     (if b < c then
        (if Less data pivot (c - 1) then doPivot_down data pivot b (c - 1) d
         else if \<not> Less data (c - 1) pivot
         then doPivot_down (Swap data (c - 1) (d - 1)) pivot b (c - 1) (d - 1)
         else (data, c, d))
      else (data, c, d))"
  by pat_completeness auto
termination
  by (relation "measure (\<lambda>(data, pivot, b, c, d). c - b)") auto

declare doPivot_down.simps [simp del]

lemma doPivot_up_mono: "doPivot_up data pivot a b c = (data', a', b') \<Longrightarrow> b \<le> b'"
  by (induction data pivot a b c rule: doPivot_up.induct)
    (subst (asm) doPivot_up.simps, auto split: if_splits)

lemma doPivot_down_mono: "doPivot_down data pivot b c d = (data', c', d') \<Longrightarrow> c' \<le> c"
  by (induction data pivot b c d rule: doPivot_down.induct)
    (subst (asm) doPivot_down.simps, auto split: if_splits)

function doPivot_loop ::
  "ByUpdated \<Rightarrow> nat \<Rightarrow> nat \<Rightarrow> nat \<Rightarrow> nat \<Rightarrow> nat \<Rightarrow> ByUpdated \<times> nat \<times> nat \<times> nat \<times> nat" where
  "doPivot_loop data pivot a b c d =
     (case doPivot_up data pivot a b c of (data1, a1, b1) \<Rightarrow>
      case doPivot_down data1 pivot b1 c d of (data2, c1, d1) \<Rightarrow>
        if b1 \<ge> c1 then (data2, a1, b1, c1, d1)
        else doPivot_loop (Swap data2 b1 (c1 - 1)) pivot a1 (b1 + 1) (c1 - 1) d1)"
  by pat_completeness auto
termination
  by (relation "measure (\<lambda>(data, pivot, a, b, c, d). c - b)")
    (auto dest!: sym [THEN doPivot_up_mono] sym [THEN doPivot_down_mono])

declare doPivot_loop.simps [simp del]

definition doPivot :: "ByUpdated \<Rightarrow> nat \<Rightarrow> nat \<Rightarrow> ByUpdated \<times> nat \<times> nat" where
  "doPivot data lo hi =
     (let m = lo + (hi - lo) div 2;
          data =
            (if hi - lo > 40 then
               (let s = (hi - lo) div 8;
                    data = medianOfThree data lo (lo + s) (lo + 2 * s);
                    data = medianOfThree data m (m - s) (m + s)
                in medianOfThree data (hi - 1) (hi - 1 - s) (hi - 1 - 2 * s))
             else data);
          data = medianOfThree data lo m (hi - 1);
          pivot = lo
      in case doPivot_loop data pivot (lo + 1) (lo + 1) hi hi of (data, a, b, c, d) \<Rightarrow>
           (let n = min (b - a) (a - lo);
                data = swapRange data lo (b - n) n;
                n = min (hi - d) (d - c);
                data = swapRange data c (hi - n) n
            in (data, lo + b - a, hi - (d - c))))"

text \<open>
  \<^verbatim>\<open>quickSort\<close>: each turn of its loop takes one from \<^verbatim>\<open>maxDepth\<close>, sorts the smaller
  part by a call of its own and goes on with the other part.
\<close>

fun quickSort :: "ByUpdated \<Rightarrow> nat \<Rightarrow> nat \<Rightarrow> nat \<Rightarrow> ByUpdated" where
  "quickSort data a b maxDepth =
     (if b - a > 7 then
        (case maxDepth of
           0 \<Rightarrow> heapSort data a b
         | Suc maxDepth' \<Rightarrow>
             (case doPivot data a b of (data1, mlo, mhi) \<Rightarrow>
                if mlo - a < b - mhi
                then quickSort (quickSort data1 a mlo maxDepth') mhi b maxDepth'
                else quickSort (quickSort data1 mhi b maxDepth') a mlo maxDepth'))
      else if b - a > 1 then insertionSort data a b
      else data)"

declare quickSort.simps [simp del]

function maxDepth_loop :: "nat \<Rightarrow> nat \<Rightarrow> nat" where
  "maxDepth_loop i maxDepth =
     (if i > 0 then maxDepth_loop (i div 2) (maxDepth + 1) else maxDepth)"
  by pat_completeness auto
termination
  by (relation "measure (\<lambda>(i, maxDepth). i)") auto

declare maxDepth_loop.simps [simp del]

definition Sort :: "ByUpdated \<Rightarrow> ByUpdated" where
  "Sort data =
     (let n = Len data;
          maxDepth = maxDepth_loop n 0;
          maxDepth = maxDepth * 2
      in quickSort data 0 n maxDepth)"

subsection \<open>The request handlers\<close>

text \<open>
  The templates are files outside the program text. What a template does to the server
  is the helper functions of the \<^verbatim>\<open>FuncMap\<close> it calls; \<^verbatim>\<open>humanSize\<close> and \<^verbatim>\<open>humanTime\<close>
  do not take the server and are left out. A call of \<^verbatim>\<open>sign\<close> carries the reading of
  the clock at that call.
\<close>

datatype helperCall =
  sign string Time
| filterVideos "Object list"
| cleanupName string

fun callHelper :: "signer \<Rightarrow> helperCall \<Rightarrow> Server \<Rightarrow> Server \<times> logEntry list" where
  "callHelper SignedURL (sign objectName now) s =
     (case SignUrl SignedURL now s objectName of (getURL, s', logged) \<Rightarrow> (s', logged))"
| "callHelper SignedURL (filterVideos objectList) s = (s, [])"
| "callHelper SignedURL (cleanupName objectName) s = (s, [])"

text \<open>
  \<^verbatim>\<open>ExecuteTemplate\<close>, as far as the server sees it: the template's helper calls, in
  order.
\<close>

fun ExecuteTemplate :: "signer \<Rightarrow> helperCall list \<Rightarrow> Server \<Rightarrow> Server \<times> logEntry list" where
  "ExecuteTemplate SignedURL [] s = (s, [])"
| "ExecuteTemplate SignedURL (call # calls) s =
     (case callHelper SignedURL call s of (s1, logged1) \<Rightarrow>
      case ExecuteTemplate SignedURL calls s1 of (s2, logged2) \<Rightarrow> (s2, logged1 @ logged2))"

datatype panic = NilPointerDereference

text \<open>How a handler ends: a run-time panic, or a template executed on a value.\<close>

datatype 'd outcome = Panic panic | Rendered string 'd

text \<open>
  \<^verbatim>\<open>RootHandler\<close>. The pair \<^verbatim>\<open>(res, err)\<close> is what \<^verbatim>\<open>Objects.List(bucketName).Do()\<close>
  returned; a nil pointer or a nil error is \<^term>\<open>None\<close>. \<^verbatim>\<open>indexHtml\<close> gives the helper
  calls of the template \<^verbatim>\<open>index.html\<close> on its data.
\<close>

definition RootHandler ::
  "signer \<Rightarrow> (Objects option \<Rightarrow> helperCall list) \<Rightarrow> Server \<Rightarrow> Objects option \<times> error option
     \<Rightarrow> Server \<times> logEntry list \<times> Objects option outcome" where
  "RootHandler SignedURL indexHtml s listed =
     (case listed of (res, err) \<Rightarrow>
        let logged =
          (case err of
             Some e \<Rightarrow>
               [\<lparr>message = ''Failed getting video list.'', objectNameField = None,
                 internalErrorField = Some e\<rparr>]
           | None \<Rightarrow> [])
        in case res of
             None \<Rightarrow> (s, logged, Panic NilPointerDereference)
           | Some r \<Rightarrow>
               (let res = Some (r\<lparr>Items := Sort (Items r)\<rparr>)
                in case ExecuteTemplate SignedURL (indexHtml res) s of
                     (s', logged') \<Rightarrow> (s', logged @ logged', Rendered ''index.html'' res)))"

text \<open>
  \<^verbatim>\<open>PlayHandler\<close>, with the path variable \<^verbatim>\<open>objectName\<close> and the pair that
  \<^verbatim>\<open>Objects.Get(bucketName, objectName).Do()\<close> returned.
\<close>

definition PlayHandler ::
  "signer \<Rightarrow> (Object option \<Rightarrow> helperCall list) \<Rightarrow> Server \<Rightarrow> string
     \<Rightarrow> Object option \<times> error option \<Rightarrow> Server \<times> logEntry list \<times> Object option outcome" where
  "PlayHandler SignedURL playHtml s objectName got =
     (case got of (res, err) \<Rightarrow>
        let logged =
          (case err of
             Some e \<Rightarrow>
               [\<lparr>message = ''Failed getting info for video.'',
                 objectNameField = Some objectName, internalErrorField = Some e\<rparr>]
           | None \<Rightarrow> [])
        in case ExecuteTemplate SignedURL (playHtml res) s of
             (s', logged') \<Rightarrow> (s', logged @ logged', Rendered ''play.html'' res))"

subsection \<open>Startup\<close>

text \<open>
  The signing configuration \<^verbatim>\<open>main\<close> builds from its flags and the key file; the other
  fields keep Go's zero values (the zero \<^verbatim>\<open>time.Time\<close> is the first instant of year 1).
\<close>

definition zeroTime :: Time where
  "zeroTime = - 62135596800000000000"

definition initialOptions :: "string \<Rightarrow> string \<Rightarrow> SignedURLOptions" where
  "initialOptions googleAccessId pemFile =
     \<lparr>GoogleAccessID = googleAccessId, PrivateKey = pemFile, Method = ''GET'',
      Expires = zeroTime, ContentType = '''', Headers = [], MD5 = ''''\<rparr>"

text \<open>
  A signer for the examples below: like the library it refuses a configuration without
  credentials; otherwise it returns the address of the object, unsigned.
\<close>

definition exampleSignedURL :: signer where
  "exampleSignedURL bucket name opts =
     (if GoogleAccessID opts = '''' \<or> PrivateKey opts = ''''
      then Inl ''storage: missing required credentials to generate a signed URL''
      else Inr (''https://storage.googleapis.com/'' @ bucket @ ''/'' @ name))"

section \<open>Properties\<close>

subsection \<open>Suffixes\<close>

lemma HasSuffix_iff_suffix: "HasSuffix s suf \<longleftrightarrow> suffix suf s"
proof
  assume "HasSuffix s suf"
  then have "drop (length s - length suf) s = suf"
    by (simp add: HasSuffix_def)
  then have "s = take (length s - length suf) s @ suf"
    by (metis append_take_drop_id)
  then show "suffix suf s"
    by (rule suffixI)
next
  assume "suffix suf s"
  then obtain p where "s = p @ suf"
    by (auto simp: suffix_def)
  then show "HasSuffix s suf"
    by (simp add: HasSuffix_def)
qed

lemma TrimSuffix_append: "TrimSuffix (p @ suf) suf = p"
  by (simp add: TrimSuffix_def HasSuffix_def)

lemma FilterVideos_loop_filter:
  "FilterVideos_loop xs acc = acc @ filter (\<lambda>object. HasSuffix (Name object) ''.mp4'') xs"
  by (induction xs arbitrary: acc) simp_all

text \<open>
  C6: \<^verbatim>\<open>FilterVideos\<close> returns exactly the elements whose name ends with the bytes
  \<^verbatim>\<open>.mp4\<close>, in the order of the input: it is the filter of the input by that test, a
  subsequence of the input, and no longer than the input. The model is a function of
  its argument alone, which it returns a new list from.
\<close>

theorem FilterVideos_subsequence:
  "FilterVideos objectList = filter (\<lambda>object. suffix ''.mp4'' (Name object)) objectList
   \<and> subseq (FilterVideos objectList) objectList
   \<and> length (FilterVideos objectList) \<le> length objectList"
proof -
  have eq: "FilterVideos objectList =
      filter (\<lambda>object. suffix ''.mp4'' (Name object)) objectList"
    by (simp add: FilterVideos_def FilterVideos_loop_filter HasSuffix_iff_suffix)
  show ?thesis
    unfolding eq by simp
qed

text \<open>
  C7: \<^verbatim>\<open>CleanupName\<close> removes one trailing \<^verbatim>\<open>.mp4\<close>: a name with \<^verbatim>\<open>.mp4\<close> appended
  comes back as the name (whatever the name ends with, so only one occurrence goes),
  and a name that does not end with \<^verbatim>\<open>.mp4\<close> comes back unchanged.
\<close>

theorem CleanupName_removes_one_suffix:
  "CleanupName (name @ ''.mp4'') = name
   \<and> (\<not> suffix ''.mp4'' name \<longrightarrow> CleanupName name = name)"
  unfolding CleanupName_def
  by (simp only: TrimSuffix_append) (simp add: TrimSuffix_def HasSuffix_iff_suffix)

theorem CleanupName_removes_one_suffix_witness:
  "\<not> suffix ''.mp4'' ''clip.txt'' \<and> CleanupName ''clip.txt'' = ''clip.txt''
   \<and> CleanupName (''a.mp4'' @ ''.mp4'') = ''a.mp4''"
proof -
  have h: "\<not> suffix ''.mp4'' ''clip.txt''"
    by (simp add: suffix_def)
  from CleanupName_removes_one_suffix [of "''clip.txt''"] h
  have "CleanupName ''clip.txt'' = ''clip.txt''"
    by blast
  moreover from CleanupName_removes_one_suffix [of "''a.mp4''"]
  have "CleanupName (''a.mp4'' @ ''.mp4'') = ''a.mp4''"
    by blast
  ultimately show ?thesis
    using h by blast
qed

subsection \<open>Escaping\<close>

lemma unat_of_char: "unat (of_char c :: 8 word) = of_char c"
proof -
  have "(of_char c :: 8 word) = of_nat (of_char c)"
    by (simp only: of_nat_of_char)
  moreover have "(of_char c :: nat) < 256"
    by simp
  ultimately show ?thesis
    by (simp add: unat_of_nat)
qed

lemma unat_shift4: "unat (drop_bit 4 (w :: 8 word)) = unat w div 16"
  by (simp add: drop_bit_eq_div unat_div)

lemma unat_and15: "unat ((w :: 8 word) AND 15) = unat w mod 16"
proof -
  have "(15 :: 8 word) = mask 4"
    by (simp add: mask_eq_exp_minus_1)
  then have "w AND 15 = take_bit 4 w"
    by (simp add: take_bit_eq_mask)
  then show ?thesis
    by (simp add: take_bit_eq_mod unat_mod)
qed

lemma high_nibble: "unat (drop_bit 4 (w :: 8 word)) < 16"
proof -
  have "unat w < 256"
    using unsigned_less [of w] by simp
  then show ?thesis
    by (simp add: unat_shift4)
qed

lemma low_nibble: "unat ((w :: 8 word) AND 15) < 16"
  by (simp add: unat_and15)

lemma hexDigit_in: "unat i < 16 \<Longrightarrow> hexDigit i \<in> set ''0123456789ABCDEF''"
  unfolding hexDigit_def by (rule nth_mem) simp

lemma hexDigit_inj:
  assumes "unat i < 16" "unat j < 16" "hexDigit i = hexDigit j"
  shows "i = j"
proof -
  have "distinct ''0123456789ABCDEF''"
    by simp
  with assms have "unat i = unat j"
    unfolding hexDigit_def by (simp add: nth_eq_iff_index_eq)
  then show ?thesis
    by (simp add: word_unat_eq_iff)
qed

lemma nibbles_eq:
  assumes "drop_bit 4 (v :: 8 word) = drop_bit 4 w" "v AND 15 = w AND 15"
  shows "v = w"
proof -
  from assms have "unat v div 16 = unat w div 16" "unat v mod 16 = unat w mod 16"
    by (metis unat_shift4, metis unat_and15)
  then have "unat v = unat w"
    by (metis div_mult_mod_eq)
  then show ?thesis
    by (simp add: word_unat_eq_iff)
qed

lemma of_char_word_inj: "(of_char c :: 8 word) = of_char d \<Longrightarrow> c = d"
proof -
  assume "(of_char c :: 8 word) = of_char d"
  then have "unat (of_char c :: 8 word) = unat (of_char d :: 8 word)"
    by simp
  then have "(of_char c :: nat) = of_char d"
    by (simp only: unat_of_char)
  then show "c = d"
    by simp
qed

lemma shouldEscape_space: "shouldEscape (CHR '' '')"
  by (simp add: shouldEscape_def)

lemma shouldEscape_plus: "shouldEscape (CHR ''+'')"
  by (simp add: shouldEscape_def)

lemma shouldEscape_percent: "shouldEscape (CHR ''%'')"
  by (simp add: shouldEscape_def)

text \<open>The early return of \<^verbatim>\<open>escape\<close> agrees with its second loop.\<close>

lemma escapeLoop_unchanged:
  "spaceCount s = 0 \<Longrightarrow> hexCount s = 0 \<Longrightarrow> escapeLoop s = s"
proof (induction s)
  case Nil
  show ?case by simp
next
  case (Cons c s)
  from Cons.prems have c: "\<not> shouldEscape c"
    by (auto simp: spaceCount_def hexCount_def split: if_splits)
  with shouldEscape_space have "c \<noteq> CHR '' ''"
    by auto
  moreover from Cons.prems have "spaceCount s = 0" "hexCount s = 0"
    by (auto simp: spaceCount_def hexCount_def split: if_splits)
  ultimately show ?case
    using c Cons.IH by simp
qed

lemma QueryEscape_escapeLoop: "QueryEscape s = escapeLoop s"
  by (simp add: QueryEscape_def escape_def escapeLoop_unchanged)

lemma escapeLoop_append: "escapeLoop (a @ b) = escapeLoop a @ escapeLoop b"
  by (induction a) simp_all

lemma QueryEscape_append: "QueryEscape (a @ b) = QueryEscape a @ QueryEscape b"
  by (simp add: QueryEscape_escapeLoop escapeLoop_append)

lemma plus_in_QueryEscape: "CHR ''+'' \<in> set (QueryEscape [c]) \<longleftrightarrow> c = CHR '' ''"
proof (cases "c = CHR '' ''")
  case True
  then show ?thesis
    by (simp add: QueryEscape_escapeLoop)
next
  case False
  have "hexDigit (drop_bit 4 (of_char c)) \<noteq> CHR ''+''"
    using hexDigit_in [OF high_nibble, of "of_char c"] by auto
  moreover have "hexDigit (of_char c AND 15) \<noteq> CHR ''+''"
    using hexDigit_in [OF low_nibble, of "of_char c"] by auto
  ultimately show ?thesis
    using False shouldEscape_plus by (auto simp: QueryEscape_escapeLoop)
qed

lemma Replace_append: "Replace (a @ b) old new = Replace a old new @ Replace b old new"
  by (induction a) simp_all

lemma set_Replace: "set (Replace s old new) \<subseteq> (set s - {old}) \<union> set new"
  by (induction s) auto

lemma escapedName_append: "escapedName (a @ b) = escapedName a @ escapedName b"
  by (simp add: escapedName_def QueryEscape_escapeLoop escapeLoop_append Replace_append)

lemma escapedName_Nil: "escapedName [] = []"
  by (simp add: escapedName_def QueryEscape_escapeLoop)

lemma escapedName_space: "escapedName '' '' = ''%20''"
  by (simp add: escapedName_def QueryEscape_escapeLoop)

lemma escapedName_plus: "escapedName ''+'' = ''%2B''"
  by (simp add: escapedName_def QueryEscape_escapeLoop shouldEscape_plus hexDigit_def)

text \<open>Byte by byte: a kept byte stays, every other byte becomes its three-byte escape.\<close>

lemma escapedName_Cons:
  "escapedName (c # s) =
     (if shouldEscape c
      then [CHR ''%'', hexDigit (drop_bit 4 (of_char c)), hexDigit (of_char c AND 15)]
      else [c]) @ escapedName s"
proof -
  have h1: "hexDigit (drop_bit 4 (of_char c)) \<noteq> CHR ''+''"
    using hexDigit_in [OF high_nibble, of "of_char c"] by auto
  have h2: "hexDigit (of_char c AND 15) \<noteq> CHR ''+''"
    using hexDigit_in [OF low_nibble, of "of_char c"] by auto
  have sp: "hexDigit (drop_bit 4 (of_char (CHR '' ''))) = CHR ''2''"
    "hexDigit (of_char (CHR '' '') AND 15) = CHR ''0''"
    by (simp_all add: hexDigit_def)
  show ?thesis
    using h1 h2 sp shouldEscape_space shouldEscape_plus
    by (auto simp: escapedName_def QueryEscape_escapeLoop)
qed

lemma escapedName_Cons_inj:
  assumes "escapedName (c # s) = escapedName (d # t)"
  shows "c = d \<and> escapedName s = escapedName t"
proof (cases "shouldEscape c"; cases "shouldEscape d")
  assume c: "shouldEscape c" and d: "shouldEscape d"
  with assms have
    "hexDigit (drop_bit 4 (of_char c)) = hexDigit (drop_bit 4 (of_char d))"
    "hexDigit (of_char c AND 15) = hexDigit (of_char d AND 15)"
    and rest: "escapedName s = escapedName t"
    by (simp_all add: escapedName_Cons)
  then have "drop_bit 4 (of_char c :: 8 word) = drop_bit 4 (of_char d)"
    "(of_char c :: 8 word) AND 15 = of_char d AND 15"
    by (auto intro: hexDigit_inj high_nibble low_nibble)
  then have "c = d"
    by (auto dest: nibbles_eq of_char_word_inj)
  with rest show ?thesis
    by simp
next
  assume "shouldEscape c" "\<not> shouldEscape d"
  with assms have "d = CHR ''%''"
    by (simp add: escapedName_Cons)
  with \<open>\<not> shouldEscape d\<close> shouldEscape_percent show ?thesis
    by simp
next
  assume "\<not> shouldEscape c" "shouldEscape d"
  with assms have "c = CHR ''%''"
    by (simp add: escapedName_Cons)
  with \<open>\<not> shouldEscape c\<close> shouldEscape_percent show ?thesis
    by simp
next
  assume "\<not> shouldEscape c" "\<not> shouldEscape d"
  with assms show ?thesis
    by (simp add: escapedName_Cons)
qed

lemma escapedName_inj: "escapedName m = escapedName n \<Longrightarrow> m = n"
proof (induction m arbitrary: n)
  case Nil
  then show ?case
    by (cases n) (auto simp: escapedName_Nil escapedName_Cons split: if_splits)
next
  case (Cons c s)
  show ?case
  proof (cases n)
    case Nil
    with Cons.prems show ?thesis
      by (auto simp: escapedName_Nil escapedName_Cons split: if_splits)
  next
    case (Cons d t)
    with Cons.prems Cons.IH escapedName_Cons_inj show ?thesis
      by blast
  qed
qed

text \<open>
  C5: the name \<^verbatim>\<open>SignUrl\<close> passes on holds no byte \<^verbatim>\<open>+\<close>, and a space anywhere in the
  object name stands there as \<^verbatim>\<open>%20\<close>, between the escaped text before it and the
  escaped text after it.
\<close>

theorem escapedName_has_no_plus:
  "CHR ''+'' \<notin> set (escapedName objectName)
   \<and> escapedName (a @ '' '' @ b) = escapedName a @ ''%20'' @ escapedName b"
proof -
  have "CHR ''+'' \<notin> set (escapedName objectName)"
    using set_Replace [of "QueryEscape objectName" "CHR ''+''" "''%20''"]
    by (auto simp: escapedName_def)
  moreover have "escapedName (a @ '' '' @ b) = escapedName a @ ''%20'' @ escapedName b"
    by (simp only: escapedName_append escapedName_space)
  ultimately show ?thesis
    by simp
qed

text \<open>
  C10: a \<^verbatim>\<open>+\<close> of the object name is escaped as \<^verbatim>\<open>%2B\<close> and a space as \<^verbatim>\<open>%20\<close>; in
  the output of \<^verbatim>\<open>QueryEscape\<close>, which is made byte by byte, a byte of the name gives
  a \<^verbatim>\<open>+\<close> exactly when it is a space, so the replacement reaches the spaces only; and
  different names have different escaped names, so a name with \<^verbatim>\<open>+\<close> and the name
  with a space in its place never collide.
\<close>

theorem escapedName_tells_plus_from_space:
  "escapedName (a @ ''+'' @ b) = escapedName a @ ''%2B'' @ escapedName b
   \<and> escapedName (a @ '' '' @ b) = escapedName a @ ''%20'' @ escapedName b
   \<and> QueryEscape (a @ [c] @ b) = QueryEscape a @ QueryEscape [c] @ QueryEscape b
   \<and> (CHR ''+'' \<in> set (QueryEscape [c]) \<longleftrightarrow> c = CHR '' '')
   \<and> escapedName (a @ ''+'' @ b) \<noteq> escapedName (a @ '' '' @ b)
   \<and> (escapedName m = escapedName n \<longleftrightarrow> m = n)"
proof -
  have "escapedName (a @ ''+'' @ b) = escapedName a @ ''%2B'' @ escapedName b"
    by (simp only: escapedName_append escapedName_plus)
  moreover have "escapedName (a @ '' '' @ b) = escapedName a @ ''%20'' @ escapedName b"
    by (simp only: escapedName_append escapedName_space)
  moreover have "QueryEscape (a @ [c] @ b) = QueryEscape a @ QueryEscape [c] @ QueryEscape b"
    by (simp only: QueryEscape_append)
  moreover have "escapedName (a @ ''+'' @ b) \<noteq> escapedName (a @ '' '' @ b)"
    using escapedName_inj [of "a @ ''+'' @ b" "a @ '' '' @ b"] by auto
  moreover have "escapedName m = escapedName n \<longleftrightarrow> m = n"
    using escapedName_inj by blast
  ultimately show ?thesis
    using plus_in_QueryEscape by simp
qed

subsection \<open>SignUrl and the signing configuration\<close>

lemma SignUrl_server:
  "fst (snd (SignUrl SignedURL now s objectName)) =
     s\<lparr>StorageAccessOptions := (StorageAccessOptions s)\<lparr>Expires := now + 21600000000000\<rparr>\<rparr>"
  by (simp add: SignUrl_def Let_def Add_def Second_def split: sum.split)

lemma SignUrl_result:
  "fst (SignUrl SignedURL now s objectName) =
     (case SignedURL bucketName (escapedName objectName)
             ((StorageAccessOptions s)\<lparr>Expires := now + 21600000000000\<rparr>) of
        Inr getURL \<Rightarrow> getURL
      | Inl err \<Rightarrow> '''')"
  by (simp add: SignUrl_def Let_def Add_def Second_def split: sum.split)

lemma callHelper_options:
  "(StorageAccessOptions (fst (callHelper SignedURL call s)))\<lparr>Expires := t\<rparr> =
     (StorageAccessOptions s)\<lparr>Expires := t\<rparr>"
proof (cases call)
  case (sign objectName now)
  have "fst (callHelper SignedURL (sign objectName now) s) =
      fst (snd (SignUrl SignedURL now s objectName))"
    by (simp split: prod.split)
  with sign show ?thesis
    by (simp add: SignUrl_server)
qed simp_all

lemma ExecuteTemplate_options:
  "(StorageAccessOptions (fst (ExecuteTemplate SignedURL calls s)))\<lparr>Expires := t\<rparr> =
     (StorageAccessOptions s)\<lparr>Expires := t\<rparr>"
proof (induction calls arbitrary: s)
  case Nil
  show ?case by simp
next
  case (Cons call calls)
  have "fst (ExecuteTemplate SignedURL (call # calls) s) =
      fst (ExecuteTemplate SignedURL calls (fst (callHelper SignedURL call s)))"
    by (simp split: prod.split)
  then show ?case
    by (simp add: Cons.IH callHelper_options)
qed

lemma RootHandler_server:
  "fst (RootHandler SignedURL indexHtml s (res, err)) =
     (case res of
        None \<Rightarrow> s
      | Some r \<Rightarrow>
          fst (ExecuteTemplate SignedURL (indexHtml (Some (r\<lparr>Items := Sort (Items r)\<rparr>))) s))"
  by (simp add: RootHandler_def Let_def split: option.split prod.split)

lemma PlayHandler_server:
  "fst (PlayHandler SignedURL playHtml s objectName (res, err)) =
     fst (ExecuteTemplate SignedURL (playHtml res) s)"
  by (simp add: PlayHandler_def Let_def split: option.split prod.split)

text \<open>
  C4: when the signer fails, \<^verbatim>\<open>SignUrl\<close> returns the empty string (its result is a
  string, there is no error to pass on) and logs the object name and the error; when
  the signer succeeds, \<^verbatim>\<open>SignUrl\<close> returns the signer's URL.
\<close>

theorem SignUrl_empty_on_failure:
  "(SignedURL bucketName (escapedName objectName)
       ((StorageAccessOptions s)\<lparr>Expires := Add now (Second * 60 * 60 * 6)\<rparr>) = Inl err
     \<longrightarrow> fst (SignUrl SignedURL now s objectName) = ''''
       \<and> snd (snd (SignUrl SignedURL now s objectName)) =
           [\<lparr>message = ''Error signing URL.'', objectNameField = Some objectName,
             internalErrorField = Some err\<rparr>])
   \<and> (SignedURL bucketName (escapedName objectName)
       ((StorageAccessOptions s)\<lparr>Expires := Add now (Second * 60 * 60 * 6)\<rparr>) = Inr getURL
     \<longrightarrow> fst (SignUrl SignedURL now s objectName) = getURL)"
  by (simp add: SignUrl_def Let_def)

theorem SignUrl_empty_on_failure_witness:
  "exampleSignedURL bucketName (escapedName ''a b.mp4'')
       ((initialOptions ''id'' '''')\<lparr>Expires := Add 0 (Second * 60 * 60 * 6)\<rparr>) =
     Inl ''storage: missing required credentials to generate a signed URL''
   \<and> fst (SignUrl exampleSignedURL 0 \<lparr>StorageAccessOptions = initialOptions ''id'' ''''\<rparr>
       ''a b.mp4'') = ''''
   \<and> exampleSignedURL bucketName (escapedName ''a b.mp4'')
       ((initialOptions ''id'' ''key'')\<lparr>Expires := Add 0 (Second * 60 * 60 * 6)\<rparr>) =
     Inr ''https://storage.googleapis.com/bucket.gmbuell.com/a%20b.mp4''
   \<and> fst (SignUrl exampleSignedURL 0 \<lparr>StorageAccessOptions = initialOptions ''id'' ''key''\<rparr>
       ''a b.mp4'') = ''https://storage.googleapis.com/bucket.gmbuell.com/a%20b.mp4''"
proof -
  have name: "escapedName ''a b.mp4'' = ''a%20b.mp4''"
    by (simp add: escapedName_def QueryEscape_escapeLoop shouldEscape_def)
  have bad: "exampleSignedURL bucketName (escapedName ''a b.mp4'')
       ((initialOptions ''id'' '''')\<lparr>Expires := Add 0 (Second * 60 * 60 * 6)\<rparr>) =
     Inl ''storage: missing required credentials to generate a signed URL''"
    by (simp add: exampleSignedURL_def initialOptions_def)
  have good: "exampleSignedURL bucketName (escapedName ''a b.mp4'')
       ((initialOptions ''id'' ''key'')\<lparr>Expires := Add 0 (Second * 60 * 60 * 6)\<rparr>) =
     Inr ''https://storage.googleapis.com/bucket.gmbuell.com/a%20b.mp4''"
    by (simp add: exampleSignedURL_def initialOptions_def name bucketName_def)
  from bad
    SignUrl_empty_on_failure [where SignedURL = exampleSignedURL
      and objectName = "''a b.mp4''" and now = 0
      and s = "\<lparr>StorageAccessOptions = initialOptions ''id'' ''''\<rparr>"
      and err = "''storage: missing required credentials to generate a signed URL''"]
  have "fst (SignUrl exampleSignedURL 0 \<lparr>StorageAccessOptions = initialOptions ''id'' ''''\<rparr>
       ''a b.mp4'') = ''''"
    by simp
  moreover from good
    SignUrl_empty_on_failure [where SignedURL = exampleSignedURL
      and objectName = "''a b.mp4''" and now = 0
      and s = "\<lparr>StorageAccessOptions = initialOptions ''id'' ''key''\<rparr>"
      and getURL = "''https://storage.googleapis.com/bucket.gmbuell.com/a%20b.mp4''"]
  have "fst (SignUrl exampleSignedURL 0 \<lparr>StorageAccessOptions = initialOptions ''id'' ''key''\<rparr>
       ''a b.mp4'') = ''https://storage.googleapis.com/bucket.gmbuell.com/a%20b.mp4''"
    by simp
  ultimately show ?thesis
    using bad good by simp
qed

text \<open>
  C8: the configuration \<^verbatim>\<open>SignUrl\<close> signs with expires six hours
  (6 * 60 * 60 * 1000000000 nanoseconds) after the reading of the clock at the call:
  that is the \<^verbatim>\<open>Expires\<close> the server holds after the call and the one the signer is
  given for the URL returned.
\<close>

theorem SignUrl_expires_after_six_hours:
  "Expires (StorageAccessOptions (fst (snd (SignUrl SignedURL now s objectName)))) =
     now + 6 * 60 * 60 * 1000000000
   \<and> fst (SignUrl SignedURL now s objectName) =
     (case SignedURL bucketName (escapedName objectName)
             ((StorageAccessOptions s)\<lparr>Expires := now + 6 * 60 * 60 * 1000000000\<rparr>) of
        Inr getURL \<Rightarrow> getURL
      | Inl err \<Rightarrow> '''')"
  by (simp add: SignUrl_server SignUrl_result)

text \<open>
  C2, as stated, fails: \<^verbatim>\<open>SignUrl\<close> writes the \<^verbatim>\<open>Expires\<close> field of the shared
  configuration at every call. Here the configuration built at startup is not the one
  the server holds after one call.
\<close>

theorem SignUrl_changes_configuration:
  "StorageAccessOptions
     (fst (snd (SignUrl exampleSignedURL 0
        \<lparr>StorageAccessOptions = initialOptions ''id'' ''key''\<rparr> ''a.mp4''))) \<noteq>
   initialOptions ''id'' ''key''"
proof -
  have "Expires (StorageAccessOptions
     (fst (snd (SignUrl exampleSignedURL 0
        \<lparr>StorageAccessOptions = initialOptions ''id'' ''key''\<rparr> ''a.mp4'')))) = 21600000000000"
    by (simp add: SignUrl_server)
  moreover have "Expires (initialOptions ''id'' ''key'') = zeroTime"
    by (simp add: initialOptions_def)
  ultimately show ?thesis
    by (auto simp: zeroTime_def)
qed

text \<open>
  C2, amended: \<^verbatim>\<open>SignUrl\<close> sets \<^verbatim>\<open>Expires\<close> to six hours after the call and leaves every
  other field of the configuration as it was; a request handler, whose template may
  call \<^verbatim>\<open>sign\<close>, leaves every field other than \<^verbatim>\<open>Expires\<close> as it was; the helpers
  \<^verbatim>\<open>filterVideos\<close> and \<^verbatim>\<open>cleanupName\<close> leave the server as it was.
\<close>

theorem configuration_changes_in_Expires_only:
  "StorageAccessOptions (fst (snd (SignUrl SignedURL now s objectName))) =
     (StorageAccessOptions s)\<lparr>Expires := now + 21600000000000\<rparr>
   \<and> (StorageAccessOptions (fst (RootHandler SignedURL indexHtml s listed)))\<lparr>Expires := t\<rparr> =
     (StorageAccessOptions s)\<lparr>Expires := t\<rparr>
   \<and> (StorageAccessOptions (fst (PlayHandler SignedURL playHtml s name got)))\<lparr>Expires := t\<rparr> =
     (StorageAccessOptions s)\<lparr>Expires := t\<rparr>
   \<and> callHelper SignedURL (filterVideos objectList) s = (s, [])
   \<and> callHelper SignedURL (cleanupName name') s = (s, [])"
proof -
  obtain res err where listed: "listed = (res, err)"
    by (cases listed)
  obtain res' err' where got: "got = (res', err')"
    by (cases got)
  have "(StorageAccessOptions (fst (RootHandler SignedURL indexHtml s listed)))\<lparr>Expires := t\<rparr> =
     (StorageAccessOptions s)\<lparr>Expires := t\<rparr>"
    unfolding listed RootHandler_server
    by (cases res) (simp_all add: ExecuteTemplate_options)
  moreover have
    "(StorageAccessOptions (fst (PlayHandler SignedURL playHtml s name got)))\<lparr>Expires := t\<rparr> =
     (StorageAccessOptions s)\<lparr>Expires := t\<rparr>"
    unfolding got PlayHandler_server
    by (simp add: ExecuteTemplate_options)
  ultimately show ?thesis
    by (simp add: SignUrl_server)
qed

subsection \<open>The handlers when the fetch fails\<close>

text \<open>
  C3 does not hold of the program: when the list call returns no result (a nil pointer)
  with its error, \<^verbatim>\<open>RootHandler\<close> logs the error and then reads \<^verbatim>\<open>res.Items\<close>, which
  panics; no template is executed.
\<close>

theorem RootHandler_panics_without_result:
  "RootHandler SignedURL indexHtml s (None, Some e) =
     (s, [\<lparr>message = ''Failed getting video list.'', objectNameField = None,
           internalErrorField = Some e\<rparr>],
      Panic NilPointerDereference)"
  by (simp add: RootHandler_def)

text \<open>
  C9: when the fetch of the object fails, \<^verbatim>\<open>PlayHandler\<close> first logs the failure with
  the object name and the error, and ends by executing \<^verbatim>\<open>play.html\<close> on the result it
  was given, present or not; whatever it is given, it does not panic.
\<close>

theorem PlayHandler_renders_after_failure:
  "snd (snd (PlayHandler SignedURL playHtml s objectName (res, Some e))) =
     Rendered ''play.html'' res
   \<and> take 1 (fst (snd (PlayHandler SignedURL playHtml s objectName (res, Some e)))) =
     [\<lparr>message = ''Failed getting info for video.'', objectNameField = Some objectName,
       internalErrorField = Some e\<rparr>]
   \<and> snd (snd (PlayHandler SignedURL playHtml s objectName got)) \<noteq> Panic p"
  by (cases got) (simp add: PlayHandler_def Let_def split: prod.split)

end
